theory Spec2Isabelle
  imports Main
begin

section \<open>String operations the handlers rely on\<close>

text \<open>
  Object keys and paths are JavaScript strings; they are modelled as \<open>string\<close>, one
  \<open>char\<close> per code unit. Only the ASCII letters change under \<open>toLowerCase\<close> and under
  the canonicalisation of a case-insensitive regular expression, as far as the
  comparisons against \<open>.pdf\<close> below are concerned.
\<close>

definition toLowerChar :: "char \<Rightarrow> char" where
  "toLowerChar c =
     (case map_of (zip ''ABCDEFGHIJKLMNOPQRSTUVWXYZ'' ''abcdefghijklmnopqrstuvwxyz'') c of
        Some l \<Rightarrow> l
      | None \<Rightarrow> c)"

definition toUpperChar :: "char \<Rightarrow> char" where
  "toUpperChar c =
     (case map_of (zip ''abcdefghijklmnopqrstuvwxyz'' ''ABCDEFGHIJKLMNOPQRSTUVWXYZ'') c of
        Some u \<Rightarrow> u
      | None \<Rightarrow> c)"

definition toLowerCase :: "string \<Rightarrow> string" where
  "toLowerCase s = map toLowerChar s"

definition endsWith :: "string \<Rightarrow> string \<Rightarrow> bool" where
  "endsWith s suffix =
     (length suffix \<le> length s \<and> drop (length s - length suffix) s = suffix)"

text \<open>\<^verbatim>\<open>filePath.toLowerCase().endsWith('.pdf')\<close>, the guard of both handlers.\<close>

definition is_pdf :: "string \<Rightarrow> bool" where
  "is_pdf filePath = endsWith (toLowerCase filePath) ''.pdf''"

text \<open>
  \<^verbatim>\<open>/\.pdf$/i\<close>: under the \<open>i\<close> flag a pattern character matches an input character
  when both canonicalise (upper-case) to the same character. \<open>dot_pdf_end s\<close> says
  that the pattern matches at the start of \<open>s\<close>, that is, \<open>s\<close> is exactly four
  characters, a dot and the three letters in either case, and then the input ends.
\<close>

definition ci_eq :: "char \<Rightarrow> char \<Rightarrow> bool" where
  "ci_eq pat c = (toUpperChar pat = toUpperChar c)"

fun dot_pdf_end :: "string \<Rightarrow> bool" where
  "dot_pdf_end [a, b, c, d] =
     (a = CHR ''.'' \<and> ci_eq CHR ''p'' b \<and> ci_eq CHR ''d'' c \<and> ci_eq CHR ''f'' d)"
| "dot_pdf_end _ = False"

text \<open>
  \<^verbatim>\<open>s.replace(/\.pdf$/i, '.png')\<close>: the engine tries each start position from the
  left; the first position where the pattern matches is replaced, and a string
  without a match is returned as it is.
\<close>

fun replace_pdf_png :: "string \<Rightarrow> string" where
  "replace_pdf_png [] = []"
| "replace_pdf_png (c # cs) =
     (if dot_pdf_end (c # cs) then ''.png'' else c # replace_pdf_png cs)"

text \<open>\<^verbatim>\<open>s.replace(/\//g, '_').replace(/\./g, '_')\<close> of \<open>createTempDir\<close>.\<close>

definition replace_all :: "char \<Rightarrow> char \<Rightarrow> string \<Rightarrow> string" where
  "replace_all old new s = map (\<lambda>c. if c = old then new else c) s"

definition safeName :: "string \<Rightarrow> string" where
  "safeName filePath = replace_all CHR ''.'' CHR ''_'' (replace_all CHR ''/'' CHR ''_'' filePath)"

text \<open>\<^verbatim>\<open>s.split('/')\<close> (never an empty array) and \<^verbatim>\<open>.pop()\<close>, its last element.\<close>

fun split :: "char \<Rightarrow> string \<Rightarrow> string list" where
  "split sep [] = [[]]"
| "split sep (c # cs) =
     (if c = sep then [] # split sep cs
      else (case split sep cs of
              [] \<Rightarrow> [[c]]
            | seg # segs \<Rightarrow> (c # seg) # segs))"

definition pop :: "string list \<Rightarrow> string" where
  "pop segs = (case rev segs of [] \<Rightarrow> [] | seg # _ \<Rightarrow> seg)"

subsection \<open>The filename pattern\<close>

text \<open>
  \<^verbatim>\<open>filePath.match(/\(([^)]+)\)\(([^)]+)\)/)\<close>. \<open>match_here\<close> runs the pattern at the start
  of its argument: a \<open>(\<close>, the longest run of characters other than \<open>)\<close> (the
  quantifier is greedy; giving characters back cannot help, since the next pattern
  character is \<open>)\<close> and the run holds none), which must not be empty, then \<open>)(\<close>,
  a second such run, and \<open>)\<close>. \<open>filePath_match\<close> tries the start positions from the
  left and returns the two groups of the first match, \<open>None\<close> for \<open>null\<close>.
\<close>

definition not_rparen :: "char \<Rightarrow> bool" where
  "not_rparen c = (c \<noteq> CHR '')'')"

definition match_here :: "string \<Rightarrow> (string \<times> string) option" where
  "match_here s =
     (case s of
        [] \<Rightarrow> None
      | c # s1 \<Rightarrow>
          if c \<noteq> CHR ''('' then None
          else
            let g1 = takeWhile not_rparen s1; r1 = dropWhile not_rparen s1 in
            if g1 = [] then None
            else
              (case r1 of
                 a # b # s2 \<Rightarrow>
                   if a = CHR '')'' \<and> b = CHR ''('' then
                     let g2 = takeWhile not_rparen s2; r2 = dropWhile not_rparen s2 in
                     if g2 = [] then None
                     else
                       (case r2 of
                          [] \<Rightarrow> None
                        | e # _ \<Rightarrow> if e = CHR '')'' then Some (g1, g2) else None)
                   else None
               | _ \<Rightarrow> None))"

fun filePath_match :: "string \<Rightarrow> (string \<times> string) option" where
  "filePath_match [] = None"
| "filePath_match (c # cs) =
     (case match_here (c # cs) of
        Some groups \<Rightarrow> Some groups
      | None \<Rightarrow> filePath_match cs)"

text \<open>
  What the pattern describes, independently of the engine: the key splits into a
  prefix, \<open>(\<close>, a first group, \<open>)(\<close>, a second group, \<open>)\<close> and a rest, both groups
  non-empty and free of \<open>)\<close>.
\<close>

definition pattern_occurs :: "string \<Rightarrow> string \<Rightarrow> string \<Rightarrow> string \<Rightarrow> string \<Rightarrow> bool" where
  "pattern_occurs key pre g1 g2 post =
     (key = pre @ ''('' @ g1 @ '')('' @ g2 @ '')'' @ post
      \<and> g1 \<noteq> [] \<and> g2 \<noteq> [] \<and> CHR '')'' \<notin> set g1 \<and> CHR '')'' \<notin> set g2)"

section \<open>The outside world\<close>

text \<open>
  Object storage, the Ghostscript wrapper, the order-item datastore, the webhook
  receiver and the file system are collaborators outside the program. Every call a
  handler issues to one of them is appended to \<open>trace\<close>, whether or not it succeeds;
  the directories under the temp root are kept in \<open>dirs\<close>. What each call answers is
  not decided by the program: it is read from \<open>env\<close>, over which the theorems
  quantify. A handler issues each call at most once per event, so one answer per
  call is as general as an answer per argument.
\<close>

datatype error =
    SyntaxError | TypeError | FsError | TransferError | ConversionError
  | DatastoreError | NotificationError

datatype gs_option =
    Batch | NoPause | Device string | Resolution nat | Output string | Input string

datatype action =
    MkDir string
  | Download string string string
  | Ghostscript "gs_option list"
  | Upload string string string
  | DbUpdate string "string list" "(string \<times> bool) list"
  | DbQuery string "string list" string string
  | HttpPost string "(string \<times> string) list"
  | RmDir string

record world =
  dirs :: "string set"
  trace :: "action list"

text \<open>An order item as the datastore returns it.\<close>

record order_item =
  order :: string
  orderItemStatus :: string
  pngExtracted :: bool

text \<open>
  \<open>decode\<close> stands for \<^verbatim>\<open>JSON.parse(Buffer.from(data, 'base64').toString('utf-8'))\<close>:
  \<open>None\<close> when it throws, otherwise the parsed object as a map from its field names to
  their (string) values. \<open>query_result\<close> is \<open>None\<close> when the query rejects, otherwise
  the snapshot's \<^verbatim>\<open>val()\<close>: \<open>None\<close> for \<^verbatim>\<open>null\<close>, or the values of the object.
  \<open>random\<close> is the rendering of \<^verbatim>\<open>Math.random()\<close>.
\<close>

record env =
  tmpdir :: string
  random :: string
  decode :: "string \<Rightarrow> (string \<rightharpoonup> string) option"
  mkdir_ok :: bool
  download_ok :: bool
  gs_ok :: bool
  upload_ok :: bool
  update_ok :: bool
  query_result :: "order_item list option option"
  webhook_ok :: bool

text \<open>
  An asynchronous step takes the world and returns the world it leaves, with the
  value it resolves to (\<open>Inr\<close>) or the error it throws or rejects with (\<open>Inl\<close>).
  \<open>await\<close> runs the continuation on a resolved value and passes a rejection on.
\<close>

type_synonym 'a io = "world \<Rightarrow> world \<times> (error + 'a)"

definition resolve :: "'a \<Rightarrow> 'a io" where
  "resolve x w = (w, Inr x)"

definition throw :: "error \<Rightarrow> 'a io" where
  "throw e w = (w, Inl e)"

definition await :: "'a io \<Rightarrow> ('a \<Rightarrow> 'b io) \<Rightarrow> 'b io" where
  "await m k w = (case m w of (w', Inl e) \<Rightarrow> (w', Inl e) | (w', Inr x) \<Rightarrow> k x w')"

definition perform :: "action \<Rightarrow> world \<Rightarrow> world" where
  "perform a w = w\<lparr>trace := trace w @ [a]\<rparr>"

text \<open>\<^verbatim>\<open>fs.mkdirSync(d)\<close> throws when the directory exists or cannot be made.\<close>

definition mkdirSync :: "env \<Rightarrow> string \<Rightarrow> unit io" where
  "mkdirSync env d w =
     (let w1 = perform (MkDir d) w in
      if mkdir_ok env \<and> d \<notin> dirs w then (w1\<lparr>dirs := insert d (dirs w1)\<rparr>, Inr ())
      else (w1, Inl FsError))"

text \<open>\<^verbatim>\<open>rimraf.sync(d)\<close> removes the directory and is silent when there is none.\<close>

definition rimraf_sync :: "string \<Rightarrow> unit io" where
  "rimraf_sync d w = ((perform (RmDir d) w)\<lparr>dirs := dirs w - {d}\<rparr>, Inr ())"

section \<open>The steps shared by both handlers\<close>

definition BUCKET_NAME :: string where
  "BUCKET_NAME = ''pdf-to-png''"

definition DESTINATION_BUCKET :: string where
  "DESTINATION_BUCKET = ''pdf-to-png-output''"

text \<open>\<open>createTempDir\<close>, \<open>uploadImage\<close> and \<open>deleteDir\<close> are the same in both files.\<close>

definition createTempDir :: "env \<Rightarrow> string \<Rightarrow> string io" where
  "createTempDir env filePath =
     (let tempDir = tmpdir env @ ''/'' @ safeName filePath @ ''_'' @ random env in
      await (mkdirSync env tempDir) (\<lambda>_. resolve tempDir))"

definition uploadImage :: "env \<Rightarrow> string \<Rightarrow> string \<Rightarrow> string \<Rightarrow> unit io" where
  "uploadImage env localPngPath bucketName filePath w =
     (let w1 = perform (Upload localPngPath bucketName filePath) w in
      if upload_ok env then (w1, Inr ()) else (w1, Inl TransferError))"

definition deleteDir :: "string \<Rightarrow> unit io" where
  "deleteDir dirPath = rimraf_sync dirPath"

section \<open>The push endpoint (Docker/pdf-to-png.js)\<close>

definition downloadPdf :: "env \<Rightarrow> string \<Rightarrow> string \<Rightarrow> string \<Rightarrow> string io" where
  "downloadPdf env bucketName filePath tempDir w =
     (let destination = tempDir @ ''/'' @ pop (split CHR ''/'' filePath);
          w1 = perform (Download bucketName filePath destination) w
      in if download_ok env then (w1, Inr destination) else (w1, Inl TransferError))"

text \<open>The paths are handed to the Ghostscript wrapper between double quotes.\<close>

definition quoted :: "string \<Rightarrow> string" where
  "quoted path = CHR 0x22 # path @ [CHR 0x22]"

definition convertPdfToImage :: "env \<Rightarrow> string \<Rightarrow> string io" where
  "convertPdfToImage env pdfPath w =
     (let imagePath = replace_pdf_png pdfPath;
          quotedPdfPath = quoted pdfPath;
          quotedImagePath = quoted imagePath;
          w1 = perform (Ghostscript [Batch, NoPause, Device ''png256'', Resolution 72,
                                     Output quotedImagePath, Input quotedPdfPath]) w
      in if gs_ok env then (w1, Inr imagePath) else (w1, Inl ConversionError))"

definition models_ref :: string where
  "models_ref = ''dashboards/-N6rrHXdX4pO-T2cMbmS/models''"

definition approved_status :: string where
  "approved_status = ''-O-MBXnADt_rc_l7Lm8U''"

definition webhook_url :: string where
  "webhook_url =
     ''https://tangleapps.com/webhook?workflow=-OGo_Wq_agZdYobMm4ev&dashboard=-N6rrHXdX4pO-T2cMbmS''"

text \<open>
  \<^verbatim>\<open>tablesRef.child('orderItems').child(orderItemId).update({ pngExtracted: true })\<close>
\<close>

definition update_pngExtracted :: "env \<Rightarrow> string \<Rightarrow> unit io" where
  "update_pngExtracted env orderItemId w =
     (let w1 = perform (DbUpdate models_ref [''orderItems'', orderItemId]
                          [(''pngExtracted'', True)]) w
      in if update_ok env then (w1, Inr ()) else (w1, Inl DatastoreError))"

text \<open>
  \<^verbatim>\<open>tablesRef.child('orderItems').orderByChild('order').equalTo(orderId).once('value')\<close>
  and the snapshot's \<^verbatim>\<open>val()\<close>.
\<close>

definition query_orderItems :: "env \<Rightarrow> string \<Rightarrow> order_item list option io" where
  "query_orderItems env orderId w =
     (let w1 = perform (DbQuery models_ref [''orderItems''] ''order'' orderId) w in
      case query_result env of
        None \<Rightarrow> (w1, Inl DatastoreError)
      | Some v \<Rightarrow> (w1, Inr v))"

definition axios_post :: "env \<Rightarrow> string \<Rightarrow> (string \<times> string) list \<Rightarrow> unit io" where
  "axios_post env url body w =
     (let w1 = perform (HttpPost url body) w in
      if webhook_ok env then (w1, Inr ()) else (w1, Inl NotificationError))"

text \<open>
  Lines 110 and 111: the items are filtered to the approved status, and
  \<^verbatim>\<open>every\<close> asks each remaining one for its flag.
\<close>

definition allExtracted :: "order_item list \<Rightarrow> bool" where
  "allExtracted orderItems =
     list_all pngExtracted
       (filter (\<lambda>orderItem. orderItemStatus orderItem = approved_status) orderItems)"

text \<open>
  Lines 107 to 113, the decision to call the webhook: the snapshot's value must be
  truthy (not \<^verbatim>\<open>null\<close>) and \<open>allExtracted\<close> must hold of its values.
\<close>

definition webhook_due :: "order_item list option \<Rightarrow> bool" where
  "webhook_due snapshot_val =
     (case snapshot_val of
        None \<Rightarrow> False
      | Some orderItems \<Rightarrow> allExtracted orderItems)"

text \<open>
  Lines 94 to 128. The webhook call sits in a \<^verbatim>\<open>try\<close> of its own, whose
  \<^verbatim>\<open>catch\<close> logs and goes on.
\<close>

definition notify :: "env \<Rightarrow> string \<Rightarrow> unit io" where
  "notify env orderId w =
     (case axios_post env webhook_url [(''order'', orderId)] w of
        (w', Inl apiError) \<Rightarrow> (w', Inr ())
      | (w', Inr response) \<Rightarrow> (w', Inr ()))"

definition track_order :: "env \<Rightarrow> string \<Rightarrow> string \<Rightarrow> unit io" where
  "track_order env orderId orderItemId =
     (if orderId \<noteq> [] \<and> orderItemId \<noteq> [] then
        await (update_pngExtracted env orderItemId) (\<lambda>_.
        await (query_orderItems env orderId) (\<lambda>snapshot_val.
          if webhook_due snapshot_val then notify env orderId else resolve ()))
      else resolve ())"

record pubsub_message =
  data :: "string option"

record request =
  message :: "pubsub_message option"

datatype response = SendStatus nat | Send nat string

fun status_code :: "response \<Rightarrow> nat" where
  "status_code (SendStatus n) = n"
| "status_code (Send n body) = n"

text \<open>
  \<^verbatim>\<open>!pubsubMessage || !pubsubMessage.data\<close>: a missing body or message, and missing or
  empty data.
\<close>

definition message_data :: "request \<Rightarrow> string option" where
  "message_data req =
     (case message req of
        None \<Rightarrow> None
      | Some pubsubMessage \<Rightarrow>
          (case data pubsubMessage of
             None \<Rightarrow> None
           | Some d \<Rightarrow> if d = [] then None else Some d))"

text \<open>The body of the handler's \<^verbatim>\<open>try\<close> block.\<close>

definition handle_post :: "env \<Rightarrow> request \<Rightarrow> response io" where
  "handle_post env req =
     (case message_data req of
        None \<Rightarrow> resolve (SendStatus 400)
      | Some d \<Rightarrow>
          (case decode env d of
             None \<Rightarrow> throw SyntaxError
           | Some gcsEvent \<Rightarrow>
               let bucketName =
                     (case gcsEvent ''bucket'' of
                        None \<Rightarrow> BUCKET_NAME
                      | Some b \<Rightarrow> if b = [] then BUCKET_NAME else b)
               in
               (case gcsEvent ''name'' of
                  None \<Rightarrow> throw TypeError
                | Some filePath \<Rightarrow>
                    if \<not> is_pdf filePath then resolve (Send 200 ''Not a PDF, ignoring.'')
                    else
                      (case filePath_match filePath of
                         None \<Rightarrow> resolve (Send 400 ''Invalid file name format.'')
                       | Some (orderId, orderItemId) \<Rightarrow>
                           await (createTempDir env filePath) (\<lambda>tempDir.
                           await (downloadPdf env bucketName filePath tempDir) (\<lambda>localPdfPath.
                           await (convertPdfToImage env localPdfPath) (\<lambda>localPngPath.
                           let newFilePath = replace_pdf_png filePath in
                           await (uploadImage env localPngPath DESTINATION_BUCKET newFilePath) (\<lambda>_.
                           await (track_order env orderId orderItemId) (\<lambda>_.
                           await (deleteDir tempDir) (\<lambda>_.
                           resolve (Send 200 (''Converted PDF to PNG for file: '' @ filePath))))))))))))"

text \<open>
  The handler: whatever the \<^verbatim>\<open>try\<close> block throws is caught, logged and answered
  with \<^verbatim>\<open>res.sendStatus(200)\<close>. It starts from the directories \<open>fs\<close> and an empty
  trace.
\<close>

definition app_post :: "env \<Rightarrow> string set \<Rightarrow> request \<Rightarrow> world \<times> response" where
  "app_post env fs req =
     (case handle_post env req \<lparr>dirs = fs, trace = []\<rparr> of
        (w, Inl err) \<Rightarrow> (w, SendStatus 200)
      | (w, Inr res) \<Rightarrow> (w, res))"

section \<open>The direct storage trigger (unnamed/part 000)\<close>

record storage_object =
  bucket :: string
  name :: string

definition fn_downloadPdf :: "env \<Rightarrow> string \<Rightarrow> string \<Rightarrow> string \<Rightarrow> string io" where
  "fn_downloadPdf env bucketName tempDir filePath w =
     (let destination = tempDir @ ''/'' @ pop (split CHR ''/'' filePath);
          w1 = perform (Download bucketName filePath destination) w
      in if download_ok env then (w1, Inr destination) else (w1, Inl TransferError))"

definition fn_convertPdfToImage :: "env \<Rightarrow> string \<Rightarrow> string io" where
  "fn_convertPdfToImage env pdfPath w =
     (let imagePath = replace_pdf_png pdfPath;
          w1 = perform (Ghostscript [Batch, NoPause, Device ''png16m'',
                                     Output imagePath, Input pdfPath]) w
      in if gs_ok env then (w1, Inr imagePath) else (w1, Inl ConversionError))"

text \<open>
  \<open>createImage\<close> has no \<^verbatim>\<open>try\<close>: an error of a step rejects the promise it
  returns (\<open>Inl\<close>).
\<close>

definition createImage :: "env \<Rightarrow> string set \<Rightarrow> storage_object \<Rightarrow> world \<times> (error + unit)" where
  "createImage env fs object =
     (let bucketName = bucket object; filePath = name object in
      (if \<not> is_pdf filePath then resolve ()
       else
         await (createTempDir env filePath) (\<lambda>tempDir.
         await (fn_downloadPdf env bucketName tempDir filePath) (\<lambda>tmpPdfPath.
         await (fn_convertPdfToImage env tmpPdfPath) (\<lambda>tmpPngPath.
         let newFilePath = replace_pdf_png filePath in
         await (uploadImage env tmpPngPath bucketName newFilePath) (\<lambda>_.
         deleteDir tempDir)))))
        \<lparr>dirs = fs, trace = []\<rparr>)"

section \<open>Reading a trace\<close>

definition approved :: "order_item \<Rightarrow> bool" where
  "approved orderItem = (orderItemStatus orderItem = approved_status)"


text \<open>The calls of the tracking part: datastore update, datastore query, webhook.\<close>

fun is_tracking :: "action \<Rightarrow> bool" where
  "is_tracking (DbUpdate ref children payload) = True"
| "is_tracking (DbQuery ref children child v) = True"
| "is_tracking (HttpPost url body) = True"
| "is_tracking _ = False"

text \<open>
  Inputs for the examples: an environment in which every call succeeds, the decoded
  event names \<open>key\<close> in the bucket \<open>pdf-to-png\<close>, and the order has one approved,
  extracted item; a request that carries data; the storage object of the same key.
\<close>

definition example_env :: "string \<Rightarrow> env" where
  "example_env key =
     \<lparr>tmpdir = ''/tmp'', random = ''0.5'',
      decode = (\<lambda>d. Some [''bucket'' \<mapsto> ''pdf-to-png'', ''name'' \<mapsto> key]),
      mkdir_ok = True, download_ok = True, gs_ok = True, upload_ok = True,
      update_ok = True,
      query_result =
        Some (Some [\<lparr>order = ''O100'', orderItemStatus = approved_status,
                      pngExtracted = True\<rparr>]),
      webhook_ok = True\<rparr>"

definition example_request :: request where
  "example_request = \<lparr>message = Some \<lparr>data = Some ''e30=''\<rparr>\<rparr>"

definition example_object :: "string \<Rightarrow> storage_object" where
  "example_object key = \<lparr>bucket = ''pdf-to-png'', name = key\<rparr>"

definition pending_item :: order_item where
  "pending_item = \<lparr>order = ''O100'', orderItemStatus = ''pending'', pngExtracted = False\<rparr>"

section \<open>The order-item datastore\<close>















section \<open>Lemmas on the string operations\<close>

lemma toLowerChar_p: "toLowerChar c = CHR ''p'' \<longleftrightarrow> c = CHR ''p'' \<or> c = CHR ''P''"
  by (auto simp: toLowerChar_def split: if_splits)

lemma toLowerChar_d: "toLowerChar c = CHR ''d'' \<longleftrightarrow> c = CHR ''d'' \<or> c = CHR ''D''"
  by (auto simp: toLowerChar_def split: if_splits)

lemma toLowerChar_f: "toLowerChar c = CHR ''f'' \<longleftrightarrow> c = CHR ''f'' \<or> c = CHR ''F''"
  by (auto simp: toLowerChar_def split: if_splits)

lemma toLowerChar_dot: "toLowerChar c = CHR ''.'' \<longleftrightarrow> c = CHR ''.''"
  by (auto simp: toLowerChar_def split: if_splits)

lemma ci_eq_p: "ci_eq CHR ''p'' c \<longleftrightarrow> c = CHR ''p'' \<or> c = CHR ''P''"
  by (auto simp: ci_eq_def toUpperChar_def split: if_splits)

lemma ci_eq_d: "ci_eq CHR ''d'' c \<longleftrightarrow> c = CHR ''d'' \<or> c = CHR ''D''"
  by (auto simp: ci_eq_def toUpperChar_def split: if_splits)

lemma ci_eq_f: "ci_eq CHR ''f'' c \<longleftrightarrow> c = CHR ''f'' \<or> c = CHR ''F''"
  by (auto simp: ci_eq_def toUpperChar_def split: if_splits)

lemma dot_pdf_end_iff: "dot_pdf_end s \<longleftrightarrow> toLowerCase s = ''.pdf''"
proof (cases s rule: dot_pdf_end.cases)
  case (1 a b c d)
  then show ?thesis
    by (simp add: toLowerCase_def ci_eq_p ci_eq_d ci_eq_f
        toLowerChar_p toLowerChar_d toLowerChar_f toLowerChar_dot)
qed (simp_all add: toLowerCase_def)

lemma dot_pdf_end_length: "dot_pdf_end s \<Longrightarrow> length s = 4"
  by (cases s rule: dot_pdf_end.cases) simp_all

lemma is_pdf_split:
  "is_pdf key \<longleftrightarrow> (\<exists>stem ext. key = stem @ ext \<and> toLowerCase ext = ''.pdf'')"
proof
  assume h: "is_pdf key"
  let ?n = "length key - 4"
  have "key = take ?n key @ drop ?n key" by simp
  moreover have "toLowerCase (drop ?n key) = ''.pdf''"
    using h by (simp add: is_pdf_def endsWith_def toLowerCase_def drop_map eval_nat_numeral)
  ultimately show "\<exists>stem ext. key = stem @ ext \<and> toLowerCase ext = ''.pdf''" by blast
next
  assume "\<exists>stem ext. key = stem @ ext \<and> toLowerCase ext = ''.pdf''"
  then obtain stem ext where k: "key = stem @ ext" and e: "toLowerCase ext = ''.pdf''"
    by blast
  from e have "length ext = 4"
    using dot_pdf_end_iff dot_pdf_end_length by blast
  with k e show "is_pdf key"
    by (simp add: is_pdf_def endsWith_def toLowerCase_def)
qed

lemma replace_pdf_png_append:
  "toLowerCase ext = ''.pdf'' \<Longrightarrow> replace_pdf_png (stem @ ext) = stem @ ''.png''"
proof (induction stem)
  case Nil
  then have "dot_pdf_end ext" by (simp add: dot_pdf_end_iff)
  then show ?case by (cases ext) simp_all
next
  case (Cons c stem)
  have "\<not> dot_pdf_end (c # stem @ ext)"
  proof
    assume "dot_pdf_end (c # stem @ ext)"
    then have "length (c # stem @ ext) = 4" by (rule dot_pdf_end_length)
    moreover have "length ext = 4"
      using Cons.prems dot_pdf_end_iff dot_pdf_end_length by blast
    ultimately show False by simp
  qed
  with Cons show ?case by simp
qed

subsection \<open>The filename pattern finds exactly the occurrences\<close>

lemma match_here_sound:
  "match_here s = Some (g1, g2) \<Longrightarrow> \<exists>post. pattern_occurs s [] g1 g2 post"
proof -
  assume m: "match_here s = Some (g1, g2)"
  then obtain s1 where s: "s = CHR ''('' # s1"
    by (auto simp: match_here_def split: list.splits if_splits)
  from m s obtain s2 where
    g1: "g1 = takeWhile not_rparen s1" "g1 \<noteq> []" and
    r1: "dropWhile not_rparen s1 = CHR '')'' # CHR ''('' # s2"
    by (auto simp: match_here_def Let_def split: list.splits if_splits)
  from m s g1 r1 obtain post where
    g2: "g2 = takeWhile not_rparen s2" "g2 \<noteq> []" and
    r2: "dropWhile not_rparen s2 = CHR '')'' # post"
    by (auto simp: match_here_def Let_def split: list.splits if_splits)
  have s1: "s1 = g1 @ CHR '')'' # CHR ''('' # s2"
    using g1(1) r1 takeWhile_dropWhile_id[of not_rparen s1] by simp
  have s2: "s2 = g2 @ CHR '')'' # post"
    using g2(1) r2 takeWhile_dropWhile_id[of not_rparen s2] by simp
  have k: "s = [] @ ''('' @ g1 @ '')('' @ g2 @ '')'' @ post"
    by (subst s, subst s1, subst s2) simp
  have n1: "CHR '')'' \<notin> set g1"
    unfolding g1(1) by (auto dest: set_takeWhileD simp: not_rparen_def)
  have n2: "CHR '')'' \<notin> set g2"
    unfolding g2(1) by (auto dest: set_takeWhileD simp: not_rparen_def)
  show ?thesis
    unfolding pattern_occurs_def using k g1(2) g2(2) n1 n2 by blast
qed

lemma span_not_rparen:
  "CHR '')'' \<notin> set g \<Longrightarrow>
     takeWhile not_rparen (g @ CHR '')'' # rest) = g
   \<and> dropWhile not_rparen (g @ CHR '')'' # rest) = CHR '')'' # rest"
  by (induction g) (auto simp: not_rparen_def)

lemma match_here_complete:
  "pattern_occurs s [] g1 g2 post \<Longrightarrow> match_here s = Some (g1, g2)"
proof -
  assume p: "pattern_occurs s [] g1 g2 post"
  then have s: "s = CHR ''('' # g1 @ CHR '')'' # CHR ''('' # g2 @ CHR '')'' # post"
    and n: "g1 \<noteq> []" "g2 \<noteq> []" "CHR '')'' \<notin> set g1" "CHR '')'' \<notin> set g2"
    by (simp_all add: pattern_occurs_def)
  show ?thesis
    using n by (simp add: s match_here_def span_not_rparen)
qed

lemma pattern_occurs_Cons:
  "pattern_occurs (c # cs) (c' # pre) g1 g2 post \<longleftrightarrow> c' = c \<and> pattern_occurs cs pre g1 g2 post"
  by (auto simp: pattern_occurs_def)

lemma pattern_occurs_Nil: "\<not> pattern_occurs [] pre g1 g2 post"
  by (simp add: pattern_occurs_def)

lemma filePath_match_sound:
  "filePath_match key = Some (g1, g2) \<Longrightarrow>
     \<exists>pre post. pattern_occurs key pre g1 g2 post
       \<and> (\<forall>pre' a b post'. pattern_occurs key pre' a b post' \<longrightarrow> length pre \<le> length pre')"
proof (induction key)
  case Nil
  then show ?case by simp
next
  case (Cons c cs)
  show ?case
  proof (cases "match_here (c # cs)")
    case (Some groups)
    with Cons.prems have "match_here (c # cs) = Some (g1, g2)" by simp
    then obtain post where "pattern_occurs (c # cs) [] g1 g2 post"
      using match_here_sound by blast
    then show ?thesis by (intro exI[of _ "[]"] exI[of _ post]) simp
  next
    case None
    with Cons.prems have "filePath_match cs = Some (g1, g2)" by simp
    from Cons.IH[OF this] obtain pre post where
      occ: "pattern_occurs cs pre g1 g2 post" and
      least: "\<And>pre' a b post'. pattern_occurs cs pre' a b post' \<Longrightarrow> length pre \<le> length pre'"
      by blast
    have "length (c # pre) \<le> length pre'" if o: "pattern_occurs (c # cs) pre' a b post'"
      for pre' a b post'
    proof (cases pre')
      case Nil
      with o None match_here_complete show ?thesis by fastforce
    next
      case (Cons c' pre'')
      with o have "pattern_occurs cs pre'' a b post'" by (simp add: pattern_occurs_Cons)
      from least[OF this] Cons show ?thesis by simp
    qed
    with occ show ?thesis
      by (intro exI[of _ "c # pre"] exI[of _ post]) (simp add: pattern_occurs_Cons)
  qed
qed

lemma filePath_match_complete:
  "pattern_occurs key pre a b post \<Longrightarrow> filePath_match key \<noteq> None"
proof (induction pre arbitrary: key)
  case Nil
  then have "match_here key = Some (a, b)" by (rule match_here_complete)
  then show ?case by (cases key) (simp_all add: match_here_def)
next
  case (Cons c pre)
  then obtain cs where k: "key = c # cs" and "pattern_occurs cs pre a b post"
    by (cases key) (auto simp: pattern_occurs_Nil pattern_occurs_Cons)
  with Cons.IH have "filePath_match cs \<noteq> None" by blast
  with k show ?case by (simp split: option.splits)
qed

lemma filePath_match_groups_nonempty:
  "filePath_match key = Some (g1, g2) \<Longrightarrow> g1 \<noteq> [] \<and> g2 \<noteq> []"
  using filePath_match_sound by (fastforce simp: pattern_occurs_def)

section \<open>The handlers, branch by branch\<close>

lemmas step_defs =
  createTempDir_def mkdirSync_def downloadPdf_def convertPdfToImage_def uploadImage_def
  track_order_def update_pngExtracted_def query_orderItems_def notify_def axios_post_def
  deleteDir_def rimraf_sync_def await_def resolve_def throw_def perform_def
  fn_downloadPdf_def fn_convertPdfToImage_def

lemma app_post_unhandled:
  "message_data req = None \<Longrightarrow>
     app_post env fs req = (\<lparr>dirs = fs, trace = []\<rparr>, SendStatus 400)"
  "message_data req = Some d \<Longrightarrow> decode env d = None \<Longrightarrow>
     app_post env fs req = (\<lparr>dirs = fs, trace = []\<rparr>, SendStatus 200)"
  "message_data req = Some d \<Longrightarrow> decode env d = Some ev \<Longrightarrow> ev ''name'' = None \<Longrightarrow>
     app_post env fs req = (\<lparr>dirs = fs, trace = []\<rparr>, SendStatus 200)"
  "message_data req = Some d \<Longrightarrow> decode env d = Some ev \<Longrightarrow> ev ''name'' = Some key \<Longrightarrow>
     \<not> is_pdf key \<Longrightarrow>
     app_post env fs req = (\<lparr>dirs = fs, trace = []\<rparr>, Send 200 ''Not a PDF, ignoring.'')"
  "message_data req = Some d \<Longrightarrow> decode env d = Some ev \<Longrightarrow> ev ''name'' = Some key \<Longrightarrow>
     is_pdf key \<Longrightarrow> filePath_match key = None \<Longrightarrow>
     app_post env fs req = (\<lparr>dirs = fs, trace = []\<rparr>, Send 400 ''Invalid file name format.'')"
  by (simp_all add: app_post_def handle_post_def resolve_def throw_def)

lemma app_post_handled:
  assumes "message_data req = Some d" "decode env d = Some ev" "ev ''name'' = Some key"
    "is_pdf key" "filePath_match key = Some (orderId, orderItemId)"
  defines "bucketName \<equiv>
     (case ev ''bucket'' of None \<Rightarrow> BUCKET_NAME | Some b \<Rightarrow> if b = [] then BUCKET_NAME else b)"
  defines "tempDir \<equiv> tmpdir env @ ''/'' @ safeName key @ ''_'' @ random env"
  defines "pdf \<equiv> tempDir @ ''/'' @ pop (split CHR ''/'' key)"
  defines "s1 \<equiv> [MkDir tempDir]"
  defines "s2 \<equiv> s1 @ [Download bucketName key pdf]"
  defines "s3 \<equiv> s2 @ [Ghostscript [Batch, NoPause, Device ''png256'', Resolution 72,
                          Output (quoted (replace_pdf_png pdf)), Input (quoted pdf)]]"
  defines "s4 \<equiv> s3 @ [Upload (replace_pdf_png pdf) DESTINATION_BUCKET (replace_pdf_png key)]"
  defines "s5 \<equiv> s4 @ [DbUpdate models_ref [''orderItems'', orderItemId] [(''pngExtracted'', True)]]"
  defines "s6 \<equiv> s5 @ [DbQuery models_ref [''orderItems''] ''order'' orderId]"
  defines "s7 \<equiv> s6 @ [HttpPost webhook_url [(''order'', orderId)]]"
  shows "app_post env fs req =
     (if \<not> (mkdir_ok env \<and> tempDir \<notin> fs) then (\<lparr>dirs = fs, trace = s1\<rparr>, SendStatus 200)
      else if \<not> download_ok env then (\<lparr>dirs = insert tempDir fs, trace = s2\<rparr>, SendStatus 200)
      else if \<not> gs_ok env then (\<lparr>dirs = insert tempDir fs, trace = s3\<rparr>, SendStatus 200)
      else if \<not> upload_ok env then (\<lparr>dirs = insert tempDir fs, trace = s4\<rparr>, SendStatus 200)
      else if \<not> update_ok env then (\<lparr>dirs = insert tempDir fs, trace = s5\<rparr>, SendStatus 200)
      else (case query_result env of
              None \<Rightarrow> (\<lparr>dirs = insert tempDir fs, trace = s6\<rparr>, SendStatus 200)
            | Some v \<Rightarrow>
                (\<lparr>dirs = fs, trace = (if webhook_due v then s7 else s6) @ [RmDir tempDir]\<rparr>,
                 Send 200 (''Converted PDF to PNG for file: '' @ key))))"
proof -
  have ne: "orderId \<noteq> []" "orderItemId \<noteq> []"
    using assms(5) filePath_match_groups_nonempty by blast+
  show ?thesis
    unfolding s7_def s6_def s5_def s4_def s3_def s2_def s1_def pdf_def
    using assms(1-5) ne
    by (simp add: app_post_def handle_post_def step_defs Let_def bucketName_def tempDir_def
        split: option.splits)
qed

lemma createImage_runs:
  defines "tempDir \<equiv> \<lambda>env key. tmpdir env @ ''/'' @ safeName key @ ''_'' @ random env"
  defines "pdf \<equiv> \<lambda>env key. tempDir env key @ ''/'' @ pop (split CHR ''/'' key)"
  shows "createImage env fs obj =
     (if \<not> is_pdf (name obj) then (\<lparr>dirs = fs, trace = []\<rparr>, Inr ())
      else if \<not> (mkdir_ok env \<and> tempDir env (name obj) \<notin> fs) then
        (\<lparr>dirs = fs, trace = [MkDir (tempDir env (name obj))]\<rparr>, Inl FsError)
      else if \<not> download_ok env then
        (\<lparr>dirs = insert (tempDir env (name obj)) fs,
          trace = [MkDir (tempDir env (name obj)),
                   Download (bucket obj) (name obj) (pdf env (name obj))]\<rparr>, Inl TransferError)
      else if \<not> gs_ok env then
        (\<lparr>dirs = insert (tempDir env (name obj)) fs,
          trace = [MkDir (tempDir env (name obj)),
                   Download (bucket obj) (name obj) (pdf env (name obj)),
                   Ghostscript [Batch, NoPause, Device ''png16m'',
                     Output (replace_pdf_png (pdf env (name obj))), Input (pdf env (name obj))]]\<rparr>,
         Inl ConversionError)
      else if \<not> upload_ok env then
        (\<lparr>dirs = insert (tempDir env (name obj)) fs,
          trace = [MkDir (tempDir env (name obj)),
                   Download (bucket obj) (name obj) (pdf env (name obj)),
                   Ghostscript [Batch, NoPause, Device ''png16m'',
                     Output (replace_pdf_png (pdf env (name obj))), Input (pdf env (name obj))],
                   Upload (replace_pdf_png (pdf env (name obj))) (bucket obj)
                     (replace_pdf_png (name obj))]\<rparr>,
         Inl TransferError)
      else
        (\<lparr>dirs = fs,
          trace = [MkDir (tempDir env (name obj)),
                   Download (bucket obj) (name obj) (pdf env (name obj)),
                   Ghostscript [Batch, NoPause, Device ''png16m'',
                     Output (replace_pdf_png (pdf env (name obj))), Input (pdf env (name obj))],
                   Upload (replace_pdf_png (pdf env (name obj))) (bucket obj)
                     (replace_pdf_png (name obj)),
                   RmDir (tempDir env (name obj))]\<rparr>,
         Inr ()))"
  by (simp add: createImage_def step_defs Let_def tempDir_def pdf_def)


lemma app_post_cases [case_names no_data undecodable no_name not_pdf bad_name handled]:
  obtains
    "message_data req = None"
  | d where "message_data req = Some d" "decode env d = None"
  | d ev where "message_data req = Some d" "decode env d = Some ev" "ev ''name'' = None"
  | d ev key where "message_data req = Some d" "decode env d = Some ev"
      "ev ''name'' = Some key" "\<not> is_pdf key"
  | d ev key where "message_data req = Some d" "decode env d = Some ev"
      "ev ''name'' = Some key" "is_pdf key" "filePath_match key = None"
  | d ev key orderId orderItemId where "message_data req = Some d" "decode env d = Some ev"
      "ev ''name'' = Some key" "is_pdf key" "filePath_match key = Some (orderId, orderItemId)"
proof (cases "message_data req")
  case None
  then show ?thesis by (rule that(1))
next
  case d: (Some d)
  show ?thesis
  proof (cases "decode env d")
    case None
    show ?thesis by (rule that(2)[OF d None])
  next
    case ev: (Some ev)
    show ?thesis
    proof (cases "ev ''name''")
      case None
      show ?thesis by (rule that(3)[OF d ev None])
    next
      case key: (Some key)
      show ?thesis
      proof (cases "is_pdf key")
        case False
        show ?thesis by (rule that(4)[OF d ev key False])
      next
        case pdf: True
        show ?thesis
        proof (cases "filePath_match key")
          case None
          show ?thesis by (rule that(5)[OF d ev key pdf None])
        next
          case (Some groups)
          obtain a b where "groups = (a, b)" by (cases groups)
          with Some have m: "filePath_match key = Some (a, b)" by simp
          show ?thesis by (rule that(6)[OF d ev key pdf m])
        qed
      qed
    qed
  qed
qed

lemma is_pdf_replace:
  assumes "is_pdf key"
  shows "\<exists>stem ext. key = stem @ ext \<and> toLowerCase ext = ''.pdf''
     \<and> replace_pdf_png key = stem @ ''.png''"
proof -
  from assms obtain stem ext where k: "key = stem @ ext" and e: "toLowerCase ext = ''.pdf''"
    unfolding is_pdf_split by (elim exE conjE)
  have r: "replace_pdf_png key = stem @ ''.png''"
    unfolding k by (rule replace_pdf_png_append[OF e])
  from k e r show ?thesis by (intro exI conjI)
qed


lemma example_message: "message_data example_request = Some ''e30=''"
  by (simp add: example_request_def message_data_def)

section \<open>The datastore after a run\<close>








section \<open>Claims\<close>

text \<open>
  C1 (as amended). In both trigger variants, when the download, the conversion and
  the upload succeed (and, at the push endpoint, the datastore update and query as
  well), the handler ends with exactly the directories it started with: the
  workspace it created has been deleted.
\<close>

theorem C1_cleanup_on_success:
  "(download_ok env \<and> gs_ok env \<and> upload_ok env \<and> update_ok env \<and> query_result env \<noteq> None
      \<longrightarrow> dirs (fst (app_post env fs req)) = fs)
   \<and> (download_ok env \<and> gs_ok env \<and> upload_ok env
      \<longrightarrow> dirs (fst (createImage env fs obj)) = fs)"
proof (intro conjI impI)
  assume ok: "download_ok env \<and> gs_ok env \<and> upload_ok env \<and> update_ok env
    \<and> query_result env \<noteq> None"
  show "dirs (fst (app_post env fs req)) = fs"
  proof (cases rule: app_post_cases[where req=req and env=env])
    case handled
    from ok app_post_handled[OF handled, of fs] show ?thesis by auto
  qed (simp_all add: app_post_unhandled)
next
  assume "download_ok env \<and> gs_ok env \<and> upload_ok env"
  then show "dirs (fst (createImage env fs obj)) = fs"
    by (simp add: createImage_runs)
qed

theorem C1_cleanup_on_success_witness:
  "(download_ok (example_env ''in/case(O100)(I1).PDF'')
      \<and> gs_ok (example_env ''in/case(O100)(I1).PDF'')
      \<and> upload_ok (example_env ''in/case(O100)(I1).PDF'')
      \<and> update_ok (example_env ''in/case(O100)(I1).PDF'')
      \<and> query_result (example_env ''in/case(O100)(I1).PDF'') \<noteq> None)
   \<and> dirs (fst (app_post (example_env ''in/case(O100)(I1).PDF'') {} example_request)) = {}
   \<and> dirs (fst (createImage (example_env ''in/case(O100)(I1).PDF'') {}
         (example_object ''in/case(O100)(I1).PDF''))) = {}
   \<and> MkDir ''/tmp/in_case(O100)(I1)_PDF_0.5''
        \<in> set (trace (fst (app_post (example_env ''in/case(O100)(I1).PDF'') {} example_request)))
   \<and> MkDir ''/tmp/in_case(O100)(I1)_PDF_0.5''
        \<in> set (trace (fst (createImage (example_env ''in/case(O100)(I1).PDF'') {}
              (example_object ''in/case(O100)(I1).PDF''))))"
proof -
  let ?E = "example_env ''in/case(O100)(I1).PDF''"
  let ?O = "example_object ''in/case(O100)(I1).PDF''"
  have h: "download_ok ?E \<and> gs_ok ?E \<and> upload_ok ?E \<and> update_ok ?E \<and> query_result ?E \<noteq> None"
    by code_simp
  then have h': "download_ok ?E \<and> gs_ok ?E \<and> upload_ok ?E"
    by (elim conjE) (intro conjI)
  note inst = C1_cleanup_on_success[of ?E "{}" example_request ?O]
  have p: "dirs (fst (app_post ?E {} example_request)) = {}"
    by (rule inst[THEN conjunct1, THEN mp, OF h])
  have f: "dirs (fst (createImage ?E {} ?O)) = {}"
    by (rule inst[THEN conjunct2, THEN mp, OF h'])
  have m: "MkDir ''/tmp/in_case(O100)(I1)_PDF_0.5''
        \<in> set (trace (fst (app_post ?E {} example_request)))"
    by code_simp
  have m': "MkDir ''/tmp/in_case(O100)(I1)_PDF_0.5''
        \<in> set (trace (fst (createImage ?E {} ?O)))"
    by code_simp
  show ?thesis
    by (rule conjI[OF h conjI[OF p conjI[OF f conjI[OF m m']]]])
qed

text \<open>
  The claim as stated fails: when the download, the conversion or the upload fails,
  the workspace is still there when the handler ends (the push endpoint answers 200,
  the storage trigger rejects).
\<close>

theorem C1_counterexample:
  "dirs (fst (app_post ((example_env ''in/case(O100)(I1).PDF'')\<lparr>download_ok := False\<rparr>) {}
       example_request)) = {''/tmp/in_case(O100)(I1)_PDF_0.5''}
   \<and> snd (app_post ((example_env ''in/case(O100)(I1).PDF'')\<lparr>download_ok := False\<rparr>) {}
       example_request) = SendStatus 200
   \<and> dirs (fst (app_post ((example_env ''in/case(O100)(I1).PDF'')\<lparr>gs_ok := False\<rparr>) {}
       example_request)) = {''/tmp/in_case(O100)(I1)_PDF_0.5''}
   \<and> dirs (fst (app_post ((example_env ''in/case(O100)(I1).PDF'')\<lparr>upload_ok := False\<rparr>) {}
       example_request)) = {''/tmp/in_case(O100)(I1)_PDF_0.5''}
   \<and> createImage ((example_env ''in/case(O100)(I1).PDF'')\<lparr>gs_ok := False\<rparr>) {}
       (example_object ''in/case(O100)(I1).PDF'')
     = (\<lparr>dirs = {''/tmp/in_case(O100)(I1)_PDF_0.5''},
         trace = [MkDir ''/tmp/in_case(O100)(I1)_PDF_0.5'',
                  Download ''pdf-to-png'' ''in/case(O100)(I1).PDF''
                    ''/tmp/in_case(O100)(I1)_PDF_0.5/case(O100)(I1).PDF'',
                  Ghostscript [Batch, NoPause, Device ''png16m'',
                    Output ''/tmp/in_case(O100)(I1)_PDF_0.5/case(O100)(I1).png'',
                    Input ''/tmp/in_case(O100)(I1)_PDF_0.5/case(O100)(I1).PDF'']]\<rparr>,
        Inl ConversionError)"
  by code_simp

text \<open>
  C2 (as amended). The completion check that decides whether the webhook is called is
  true exactly when the query returned items for the order (its value is not
  \<^verbatim>\<open>null\<close>) and every returned item in the approved status has \<open>pngExtracted\<close>
  set; the handler calls the webhook only when the check holds of the query's
  result. With no item for the order the check is false; with one approved item
  extracted and one not it is false, and with both extracted it is true.
\<close>

theorem C2_completion_check:
  "(webhook_due v \<longleftrightarrow>
      (\<exists>orderItems. v = Some orderItems
         \<and> (\<forall>i \<in> set orderItems. approved i \<longrightarrow> pngExtracted i)))
   \<and> (HttpPost u b \<in> set (trace (fst (app_post env fs req))) \<longrightarrow>
        (\<exists>snapshot_val. query_result env = Some snapshot_val \<and> webhook_due snapshot_val))
   \<and> \<not> webhook_due None
   \<and> \<not> webhook_due (Some
          [\<lparr>order = x, orderItemStatus = approved_status, pngExtracted = True\<rparr>,
           \<lparr>order = x, orderItemStatus = approved_status, pngExtracted = False\<rparr>])
   \<and> webhook_due (Some
          [\<lparr>order = x, orderItemStatus = approved_status, pngExtracted = True\<rparr>,
           \<lparr>order = x, orderItemStatus = approved_status, pngExtracted = True\<rparr>])"
proof (intro conjI impI)
  show "webhook_due v \<longleftrightarrow>
      (\<exists>orderItems. v = Some orderItems
         \<and> (\<forall>i \<in> set orderItems. approved i \<longrightarrow> pngExtracted i))"
    by (cases v) (auto simp: webhook_due_def allExtracted_def approved_def list_all_iff)
next
  assume h: "HttpPost u b \<in> set (trace (fst (app_post env fs req)))"
  show "\<exists>snapshot_val. query_result env = Some snapshot_val \<and> webhook_due snapshot_val"
  proof (cases rule: app_post_cases[where req=req and env=env])
    case handled
    from h app_post_handled[OF handled, of fs] show ?thesis
      by (auto split: if_splits option.splits)
  qed (use h in \<open>simp_all add: app_post_unhandled\<close>)
qed (simp_all add: webhook_due_def allExtracted_def)

theorem C2_completion_check_witness:
  "webhook_due (Some [\<lparr>order = ''O100'', orderItemStatus = approved_status, pngExtracted = True\<rparr>])
   \<and> (\<exists>orderItems.
         Some [\<lparr>order = ''O100'', orderItemStatus = approved_status, pngExtracted = True\<rparr>]
           = Some orderItems
         \<and> (\<forall>i \<in> set orderItems. approved i \<longrightarrow> pngExtracted i))
   \<and> HttpPost webhook_url [(''order'', ''O100'')]
        \<in> set (trace (fst (app_post (example_env ''in/case(O100)(I1).PDF'') {} example_request)))
   \<and> (\<exists>snapshot_val. query_result (example_env ''in/case(O100)(I1).PDF'') = Some snapshot_val
          \<and> webhook_due snapshot_val)"
proof -
  let ?E = "example_env ''in/case(O100)(I1).PDF''"
  let ?v = "Some [\<lparr>order = ''O100'', orderItemStatus = approved_status, pngExtracted = True\<rparr>]"
  note inst = C2_completion_check[of ?v webhook_url "[(''order'', ''O100'')]" ?E "{}"
      example_request]
  have d: "webhook_due ?v"
    by code_simp
  have a: "\<exists>orderItems. ?v = Some orderItems
         \<and> (\<forall>i \<in> set orderItems. approved i \<longrightarrow> pngExtracted i)"
    by (rule inst[THEN conjunct1, THEN iffD1, OF d])
  have h: "HttpPost webhook_url [(''order'', ''O100'')]
        \<in> set (trace (fst (app_post ?E {} example_request)))"
    by code_simp
  have q: "\<exists>snapshot_val. query_result ?E = Some snapshot_val \<and> webhook_due snapshot_val"
    by (rule inst[THEN conjunct2, THEN conjunct1, THEN mp, OF h])
  show ?thesis
    by (rule conjI[OF d conjI[OF a conjI[OF h q]]])
qed

text \<open>
  The claim as stated fails: for an order whose only item is not in the approved
  status, the approved set is empty and the check is true; the webhook is called.
\<close>

theorem C2_counterexample:
  "filter approved [pending_item] = []
   \<and> webhook_due (Some [pending_item])
   \<and> HttpPost webhook_url [(''order'', ''O100'')]
        \<in> set (trace (fst (app_post
              ((example_env ''in/case(O100)(I1).PDF'')\<lparr>query_result := Some (Some [pending_item])\<rparr>)
              {} example_request)))"
  by code_simp

text \<open>
  C3 (as amended). At the push endpoint the response status is 400 exactly when the
  request carries no message data, or the decoded event names a key that ends in
  \<open>.pdf\<close> (in any letter case) and does not match the filename pattern; every other
  response has status 200. A request without message data is answered 400 with an
  empty trace and the directories untouched.
\<close>

theorem C3_response_status:
  "(status_code (snd (app_post env fs req)) = 400 \<longleftrightarrow>
      message_data req = None
      \<or> (\<exists>d ev key. message_data req = Some d \<and> decode env d = Some ev
            \<and> ev ''name'' = Some key \<and> is_pdf key \<and> filePath_match key = None))
   \<and> (status_code (snd (app_post env fs req)) \<noteq> 400 \<longrightarrow>
        status_code (snd (app_post env fs req)) = 200)
   \<and> (message_data req = None \<longrightarrow>
        app_post env fs req = (\<lparr>dirs = fs, trace = []\<rparr>, SendStatus 400))"
proof (cases rule: app_post_cases[where req=req and env=env])
  case handled
  from app_post_handled[OF handled, of fs] handled show ?thesis
    by (auto split: option.splits)
qed (simp_all add: app_post_unhandled)

theorem C3_response_status_witness:
  "message_data \<lparr>message = Some \<lparr>data = None\<rparr>\<rparr> = None
   \<and> app_post (example_env ''in/case(O100)(I1).PDF'') {} \<lparr>message = Some \<lparr>data = None\<rparr>\<rparr>
       = (\<lparr>dirs = {}, trace = []\<rparr>, SendStatus 400)
   \<and> status_code (snd (app_post (example_env ''in/case(O100)(I1).PDF'') {}
         \<lparr>message = Some \<lparr>data = None\<rparr>\<rparr>)) = 400
   \<and> status_code (snd (app_post ((example_env ''in/case(O100)(I1).PDF'')\<lparr>upload_ok := False\<rparr>) {}
         example_request)) \<noteq> 400
   \<and> status_code (snd (app_post ((example_env ''in/case(O100)(I1).PDF'')\<lparr>upload_ok := False\<rparr>) {}
         example_request)) = 200"
proof -
  let ?E = "example_env ''in/case(O100)(I1).PDF''"
  let ?F = "(example_env ''in/case(O100)(I1).PDF'')\<lparr>upload_ok := False\<rparr>"
  let ?R = "\<lparr>message = Some \<lparr>data = None\<rparr>\<rparr>"
  have n: "message_data ?R = None"
    by code_simp
  note inst = C3_response_status[of ?E "{}" ?R]
  have a: "app_post ?E {} ?R = (\<lparr>dirs = {}, trace = []\<rparr>, SendStatus 400)"
    by (rule inst[THEN conjunct2, THEN conjunct2, THEN mp, OF n])
  have b: "status_code (snd (app_post ?E {} ?R)) = 400"
    by (rule inst[THEN conjunct1, THEN iffD2, OF disjI1, OF n])
  have c: "status_code (snd (app_post ?F {} example_request)) \<noteq> 400"
    by code_simp
  have d: "status_code (snd (app_post ?F {} example_request)) = 200"
    by (rule C3_response_status[of ?F "{}" example_request, THEN conjunct2, THEN conjunct1,
          THEN mp, OF c])
  from n a b c d show ?thesis by (intro conjI)
qed

text \<open>
  The claim as stated fails: the key \<open>notes.txt\<close> does not match the filename
  pattern, and the response is 200.
\<close>

theorem C3_counterexample:
  "filePath_match ''notes.txt'' = None
   \<and> message_data example_request = Some ''e30=''
   \<and> app_post (example_env ''notes.txt'') {} example_request
       = (\<lparr>dirs = {}, trace = []\<rparr>, Send 200 ''Not a PDF, ignoring.'')"
  by code_simp

text \<open>
  C4. For an object key that does not end in \<open>.pdf\<close> (in any letter case), both
  handlers return at once: the push endpoint answers 200 \<open>Not a PDF, ignoring.\<close>, the
  storage trigger resolves, and neither issues any call (no download, no conversion,
  no upload) nor touches a directory.
\<close>

theorem C4_non_pdf_ignored:
  "\<not> is_pdf key \<Longrightarrow>
     (message_data req = Some d \<and> decode env d = Some ev \<and> ev ''name'' = Some key \<longrightarrow>
        app_post env fs req = (\<lparr>dirs = fs, trace = []\<rparr>, Send 200 ''Not a PDF, ignoring.''))
   \<and> createImage env fs \<lparr>bucket = b, name = key\<rparr> = (\<lparr>dirs = fs, trace = []\<rparr>, Inr ())"
  by (simp add: app_post_unhandled createImage_runs)

theorem C4_non_pdf_ignored_witness:
  "\<not> is_pdf ''in/notes(O100)(I1).pdf.txt''
   \<and> app_post (example_env ''in/notes(O100)(I1).pdf.txt'') {} example_request
       = (\<lparr>dirs = {}, trace = []\<rparr>, Send 200 ''Not a PDF, ignoring.'')
   \<and> createImage (example_env ''in/notes(O100)(I1).pdf.txt'') {}
         \<lparr>bucket = ''pdf-to-png'', name = ''in/notes(O100)(I1).pdf.txt''\<rparr>
       = (\<lparr>dirs = {}, trace = []\<rparr>, Inr ())"
proof -
  let ?K = "''in/notes(O100)(I1).pdf.txt''"
  let ?ev = "[''bucket'' \<mapsto> ''pdf-to-png'', ''name'' \<mapsto> ?K]"
  have n: "\<not> is_pdf ?K"
    by code_simp
  have e: "message_data example_request = Some ''e30=''
     \<and> decode (example_env ?K) ''e30='' = Some ?ev \<and> ?ev ''name'' = Some ?K"
    by (simp add: example_message example_env_def)
  note inst = C4_non_pdf_ignored[OF n, of example_request "''e30=''" "example_env ?K" ?ev "{}"
      "''pdf-to-png''"]
  show ?thesis
    by (rule conjI[OF n conjI[OF inst[THEN conjunct1, THEN mp, OF e] inst[THEN conjunct2]]])
qed

text \<open>
  C5. In both variants, every upload a handler issues is to the key obtained from
  the event's key by replacing its last four characters, \<open>.pdf\<close> in some letter
  case, with \<open>.png\<close>; everything before them, directories included, is kept.
\<close>

theorem C5_output_key:
  "(Upload l b k \<in> set (trace (fst (app_post env fs req))) \<longrightarrow>
      (\<exists>d ev key stem ext. message_data req = Some d \<and> decode env d = Some ev
         \<and> ev ''name'' = Some key \<and> key = stem @ ext \<and> toLowerCase ext = ''.pdf''
         \<and> k = stem @ ''.png''))
   \<and> (Upload l b k \<in> set (trace (fst (createImage env fs obj))) \<longrightarrow>
      (\<exists>stem ext. name obj = stem @ ext \<and> toLowerCase ext = ''.pdf'' \<and> k = stem @ ''.png''))"
proof (intro conjI impI)
  assume u: "Upload l b k \<in> set (trace (fst (app_post env fs req)))"
  show "\<exists>d ev key stem ext. message_data req = Some d \<and> decode env d = Some ev
         \<and> ev ''name'' = Some key \<and> key = stem @ ext \<and> toLowerCase ext = ''.pdf''
         \<and> k = stem @ ''.png''"
  proof (cases rule: app_post_cases[where req=req and env=env])
    case (handled d ev key orderId orderItemId)
    from u app_post_handled[OF handled, of fs] have "k = replace_pdf_png key"
      by (auto split: if_splits option.splits)
    with handled is_pdf_replace[of key] show ?thesis by auto
  qed (use u in \<open>simp_all add: app_post_unhandled\<close>)
next
  assume u: "Upload l b k \<in> set (trace (fst (createImage env fs obj)))"
  then have "is_pdf (name obj)" "k = replace_pdf_png (name obj)"
    by (auto simp: createImage_runs split: if_splits)
  then show "\<exists>stem ext. name obj = stem @ ext \<and> toLowerCase ext = ''.pdf'' \<and> k = stem @ ''.png''"
    using is_pdf_replace[of "name obj"] by auto
qed

theorem C5_output_key_witness:
  "Upload ''/tmp/in_case(O100)(I1)_PDF_0.5/case(O100)(I1).png'' ''pdf-to-png-output''
       ''in/case(O100)(I1).png''
     \<in> set (trace (fst (app_post (example_env ''in/case(O100)(I1).PDF'') {} example_request)))
   \<and> (\<exists>d ev key stem ext. message_data example_request = Some d
          \<and> decode (example_env ''in/case(O100)(I1).PDF'') d = Some ev
          \<and> ev ''name'' = Some key \<and> key = stem @ ext \<and> toLowerCase ext = ''.pdf''
          \<and> ''in/case(O100)(I1).png'' = stem @ ''.png'')
   \<and> Upload ''/tmp/in_case(O100)(I1)_PDF_0.5/case(O100)(I1).png'' ''pdf-to-png''
       ''in/case(O100)(I1).png''
     \<in> set (trace (fst (createImage (example_env ''in/case(O100)(I1).PDF'') {}
           (example_object ''in/case(O100)(I1).PDF''))))
   \<and> (\<exists>stem ext. name (example_object ''in/case(O100)(I1).PDF'') = stem @ ext
          \<and> toLowerCase ext = ''.pdf'' \<and> ''in/case(O100)(I1).png'' = stem @ ''.png'')"
proof -
  let ?E = "example_env ''in/case(O100)(I1).PDF''"
  let ?O = "example_object ''in/case(O100)(I1).PDF''"
  let ?png = "''/tmp/in_case(O100)(I1)_PDF_0.5/case(O100)(I1).png''"
  have u: "Upload ?png ''pdf-to-png-output'' ''in/case(O100)(I1).png''
     \<in> set (trace (fst (app_post ?E {} example_request)))"
    by code_simp
  have u': "Upload ?png ''pdf-to-png'' ''in/case(O100)(I1).png''
     \<in> set (trace (fst (createImage ?E {} ?O)))"
    by code_simp
  have a: "\<exists>d ev key stem ext. message_data example_request = Some d
          \<and> decode ?E d = Some ev
          \<and> ev ''name'' = Some key \<and> key = stem @ ext \<and> toLowerCase ext = ''.pdf''
          \<and> ''in/case(O100)(I1).png'' = stem @ ''.png''"
    by (rule C5_output_key[of ?png "''pdf-to-png-output''" "''in/case(O100)(I1).png''" ?E "{}"
          example_request, THEN conjunct1, THEN mp, OF u])
  have b: "\<exists>stem ext. name ?O = stem @ ext
          \<and> toLowerCase ext = ''.pdf'' \<and> ''in/case(O100)(I1).png'' = stem @ ''.png''"
    by (rule C5_output_key[of ?png "''pdf-to-png''" "''in/case(O100)(I1).png''" ?E "{}" example_request ?O,
          THEN conjunct2, THEN mp, OF u'])
  from u a u' b show ?thesis by (intro conjI)
qed

text \<open>
  C6. The filename pattern is found anywhere in the object key: when the match
  returns two groups, the key is a prefix, \<open>(\<close>, the first group, \<open>)(\<close>, the second
  group, \<open>)\<close> and a rest, with both groups non-empty and free of \<open>)\<close>, and no occurrence
  of the pattern starts further left; when the key holds an occurrence anywhere, the
  match is not \<open>null\<close>. Parsing \<open>invoice(ORD1)(ITEM1).pdf\<close> gives \<open>ORD1\<close> and \<open>ITEM1\<close>,
  and parsing \<open>invoice.pdf\<close> gives no identifiers.
\<close>

theorem C6_filename_pattern:
  "(filePath_match key = Some (g1, g2) \<longrightarrow>
      (\<exists>pre post. pattern_occurs key pre g1 g2 post
         \<and> (\<forall>pre' a b post'. pattern_occurs key pre' a b post' \<longrightarrow> length pre \<le> length pre')))
   \<and> ((\<exists>pre a b post. pattern_occurs key pre a b post) \<longrightarrow> filePath_match key \<noteq> None)
   \<and> filePath_match ''invoice(ORD1)(ITEM1).pdf'' = Some (''ORD1'', ''ITEM1'')
   \<and> filePath_match ''invoice.pdf'' = None"
proof (intro conjI impI)
  show "filePath_match ''invoice(ORD1)(ITEM1).pdf'' = Some (''ORD1'', ''ITEM1'')"
    by (simp add: match_here_def not_rparen_def)
  show "filePath_match ''invoice.pdf'' = None"
    by (simp add: match_here_def)
qed (use filePath_match_sound filePath_match_complete in blast)+

theorem C6_filename_pattern_witness:
  "filePath_match ''case(O100)(I1).pdf'' = Some (''O100'', ''I1'')
   \<and> (\<exists>pre post. pattern_occurs ''case(O100)(I1).pdf'' pre ''O100'' ''I1'' post)
   \<and> pattern_occurs ''case(O100)(I1).pdf'' ''case'' ''O100'' ''I1'' ''.pdf''
   \<and> filePath_match ''case(O100)(I1).pdf'' \<noteq> None"
proof -
  have m: "filePath_match ''case(O100)(I1).pdf'' = Some (''O100'', ''I1'')"
    by (simp add: match_here_def not_rparen_def)
  have p: "pattern_occurs ''case(O100)(I1).pdf'' ''case'' ''O100'' ''I1'' ''.pdf''"
    by (simp add: pattern_occurs_def)
  show ?thesis
    using m p C6_filename_pattern[of "''case(O100)(I1).pdf''" "''O100''" "''I1''"] by blast
qed

text \<open>
  C7. At the push endpoint, when the webhook is called and the call fails, the
  handler still deletes the workspace and answers 200 with the conversion message;
  after the webhook call the only further call is the removal of the workspace, so
  nothing issued before (conversion, upload, datastore update) is reverted; and the
  run is the same as when the webhook call succeeds.
\<close>

theorem C7_webhook_failure_swallowed:
  assumes "HttpPost u b \<in> set (trace (fst (app_post env fs req)))" and "\<not> webhook_ok env"
  shows "\<exists>key orderId orderItemId bucketName tempDir pdf png.
     app_post env fs req =
       (\<lparr>dirs = fs,
         trace = [MkDir tempDir, Download bucketName key pdf,
                  Ghostscript [Batch, NoPause, Device ''png256'', Resolution 72,
                    Output (quoted png), Input (quoted pdf)],
                  Upload png DESTINATION_BUCKET (replace_pdf_png key),
                  DbUpdate models_ref [''orderItems'', orderItemId] [(''pngExtracted'', True)],
                  DbQuery models_ref [''orderItems''] ''order'' orderId,
                  HttpPost u b,
                  RmDir tempDir]\<rparr>,
        Send 200 (''Converted PDF to PNG for file: '' @ key))
     \<and> tempDir \<notin> fs
     \<and> app_post (env\<lparr>webhook_ok := True\<rparr>) fs req = app_post env fs req"
proof (cases rule: app_post_cases[where req=req and env=env])
  case (handled d ev key orderId orderItemId)
  note run = app_post_handled[OF handled, of fs]
  have handled': "message_data req = Some d" "decode (env\<lparr>webhook_ok := True\<rparr>) d = Some ev"
    "ev ''name'' = Some key" "is_pdf key" "filePath_match key = Some (orderId, orderItemId)"
    using handled by simp_all
  have same: "app_post (env\<lparr>webhook_ok := True\<rparr>) fs req = app_post env fs req"
    unfolding run app_post_handled[OF handled', of fs] by (simp split: option.splits)
  from assms(1) have ok: "mkdir_ok env" "download_ok env" "gs_ok env" "upload_ok env"
    "update_ok env"
    unfolding run by (auto split: if_splits option.splits)
  from assms(1) ok have fresh: "tmpdir env @ ''/'' @ safeName key @ ''_'' @ random env \<notin> fs"
    unfolding run by (auto split: if_splits option.splits)
  from assms(1) ok fresh obtain v where v: "query_result env = Some v" "webhook_due v"
    and ub: "u = webhook_url" "b = [(''order'', orderId)]"
    unfolding run by (auto split: if_splits option.splits)
  have "app_post env fs req =
       (\<lparr>dirs = fs,
         trace = [MkDir (tmpdir env @ ''/'' @ safeName key @ ''_'' @ random env),
                  Download
                    (case ev ''bucket'' of None \<Rightarrow> BUCKET_NAME
                     | Some b \<Rightarrow> if b = [] then BUCKET_NAME else b)
                    key
                    ((tmpdir env @ ''/'' @ safeName key @ ''_'' @ random env) @ ''/''
                       @ pop (split CHR ''/'' key)),
                  Ghostscript [Batch, NoPause, Device ''png256'', Resolution 72,
                    Output (quoted (replace_pdf_png
                      ((tmpdir env @ ''/'' @ safeName key @ ''_'' @ random env) @ ''/''
                         @ pop (split CHR ''/'' key)))),
                    Input (quoted ((tmpdir env @ ''/'' @ safeName key @ ''_'' @ random env) @ ''/''
                       @ pop (split CHR ''/'' key)))],
                  Upload (replace_pdf_png
                      ((tmpdir env @ ''/'' @ safeName key @ ''_'' @ random env) @ ''/''
                         @ pop (split CHR ''/'' key)))
                    DESTINATION_BUCKET (replace_pdf_png key),
                  DbUpdate models_ref [''orderItems'', orderItemId] [(''pngExtracted'', True)],
                  DbQuery models_ref [''orderItems''] ''order'' orderId,
                  HttpPost u b,
                  RmDir (tmpdir env @ ''/'' @ safeName key @ ''_'' @ random env)]\<rparr>,
        Send 200 (''Converted PDF to PNG for file: '' @ key))"
    unfolding run using ok fresh v ub by simp
  with fresh same show ?thesis by blast
qed (use assms(1) in \<open>simp_all add: app_post_unhandled\<close>)

theorem C7_webhook_failure_swallowed_witness:
  "HttpPost webhook_url [(''order'', ''O100'')]
     \<in> set (trace (fst (app_post ((example_env ''in/case(O100)(I1).PDF'')\<lparr>webhook_ok := False\<rparr>) {}
           example_request)))
   \<and> \<not> webhook_ok ((example_env ''in/case(O100)(I1).PDF'')\<lparr>webhook_ok := False\<rparr>)
   \<and> (\<exists>key orderId orderItemId bucketName tempDir pdf png.
     app_post ((example_env ''in/case(O100)(I1).PDF'')\<lparr>webhook_ok := False\<rparr>) {} example_request =
       (\<lparr>dirs = {},
         trace = [MkDir tempDir, Download bucketName key pdf,
                  Ghostscript [Batch, NoPause, Device ''png256'', Resolution 72,
                    Output (quoted png), Input (quoted pdf)],
                  Upload png DESTINATION_BUCKET (replace_pdf_png key),
                  DbUpdate models_ref [''orderItems'', orderItemId] [(''pngExtracted'', True)],
                  DbQuery models_ref [''orderItems''] ''order'' orderId,
                  HttpPost webhook_url [(''order'', ''O100'')],
                  RmDir tempDir]\<rparr>,
        Send 200 (''Converted PDF to PNG for file: '' @ key))
     \<and> tempDir \<notin> {}
     \<and> app_post ((example_env ''in/case(O100)(I1).PDF'')\<lparr>webhook_ok := False, webhook_ok := True\<rparr>)
           {} example_request
         = app_post ((example_env ''in/case(O100)(I1).PDF'')\<lparr>webhook_ok := False\<rparr>) {}
             example_request)
   \<and> snd (app_post ((example_env ''in/case(O100)(I1).PDF'')\<lparr>webhook_ok := False\<rparr>) {}
         example_request)
       = Send 200 ''Converted PDF to PNG for file: in/case(O100)(I1).PDF''"
proof -
  let ?E = "(example_env ''in/case(O100)(I1).PDF'')\<lparr>webhook_ok := False\<rparr>"
  have h: "HttpPost webhook_url [(''order'', ''O100'')]
     \<in> set (trace (fst (app_post ?E {} example_request)))"
    by code_simp
  have f: "\<not> webhook_ok ?E"
    by code_simp
  have r: "snd (app_post ?E {} example_request)
       = Send 200 ''Converted PDF to PNG for file: in/case(O100)(I1).PDF''"
    by code_simp
  show ?thesis
    by (rule conjI[OF h conjI[OF f conjI[OF C7_webhook_failure_swallowed[OF h f] r]]])
qed

text \<open>
  C8. What each variant hands to the Ghostscript wrapper for the key
  \<open>in/case(O100)(I1).PDF\<close>: the storage trigger passes the output and input paths as
  they are, parentheses included and without quotes; the push endpoint passes them
  between double quotes.
\<close>

theorem C8_direct_variant_paths_unquoted:
  "Ghostscript [Batch, NoPause, Device ''png16m'',
      Output ''/tmp/in_case(O100)(I1)_PDF_0.5/case(O100)(I1).png'',
      Input ''/tmp/in_case(O100)(I1)_PDF_0.5/case(O100)(I1).PDF'']
     \<in> set (trace (fst (createImage (example_env ''in/case(O100)(I1).PDF'') {}
           (example_object ''in/case(O100)(I1).PDF''))))
   \<and> Ghostscript [Batch, NoPause, Device ''png256'', Resolution 72,
      Output (quoted ''/tmp/in_case(O100)(I1)_PDF_0.5/case(O100)(I1).png''),
      Input (quoted ''/tmp/in_case(O100)(I1)_PDF_0.5/case(O100)(I1).PDF'')]
     \<in> set (trace (fst (app_post (example_env ''in/case(O100)(I1).PDF'') {} example_request)))
   \<and> quoted ''/tmp/in_case(O100)(I1)_PDF_0.5/case(O100)(I1).PDF''
       \<noteq> ''/tmp/in_case(O100)(I1)_PDF_0.5/case(O100)(I1).PDF''"
  by code_simp




text \<open>
  C10. The storage trigger issues no datastore update, no datastore query and no
  webhook call, whatever the key; its run does not depend on how the datastore, the
  webhook or the payload decoder would answer; and its trace is an initial part of
  the sequence create directory, download, convert, upload, delete directory.
\<close>

theorem C10_direct_variant_effects:
  "filter is_tracking (trace (fst (createImage env fs obj))) = []
   \<and> createImage (env\<lparr>decode := dc, update_ok := uo, query_result := qr, webhook_ok := wo\<rparr>) fs obj
       = createImage env fs obj
   \<and> (\<exists>tempDir pdf png rest.
        [MkDir tempDir, Download (bucket obj) (name obj) pdf,
         Ghostscript [Batch, NoPause, Device ''png16m'', Output png, Input pdf],
         Upload png (bucket obj) (replace_pdf_png (name obj)), RmDir tempDir]
        = trace (fst (createImage env fs obj)) @ rest)"
proof (intro conjI)
  show "filter is_tracking (trace (fst (createImage env fs obj))) = []"
    by (simp add: createImage_runs)
  show "createImage (env\<lparr>decode := dc, update_ok := uo, query_result := qr, webhook_ok := wo\<rparr>) fs obj
       = createImage env fs obj"
    by (simp add: createImage_runs)
  show "\<exists>tempDir pdf png rest.
        [MkDir tempDir, Download (bucket obj) (name obj) pdf,
         Ghostscript [Batch, NoPause, Device ''png16m'', Output png, Input pdf],
         Upload png (bucket obj) (replace_pdf_png (name obj)), RmDir tempDir]
        = trace (fst (createImage env fs obj)) @ rest"
    by (simp add: createImage_runs)
qed

theorem C10_direct_variant_effects_witness:
  "filePath_match ''in/case(O100)(I1).PDF'' = Some (''O100'', ''I1'')
   \<and> createImage (example_env ''in/case(O100)(I1).PDF'') {} (example_object ''in/case(O100)(I1).PDF'')
     = (\<lparr>dirs = {},
         trace = [MkDir ''/tmp/in_case(O100)(I1)_PDF_0.5'',
                  Download ''pdf-to-png'' ''in/case(O100)(I1).PDF''
                    ''/tmp/in_case(O100)(I1)_PDF_0.5/case(O100)(I1).PDF'',
                  Ghostscript [Batch, NoPause, Device ''png16m'',
                    Output ''/tmp/in_case(O100)(I1)_PDF_0.5/case(O100)(I1).png'',
                    Input ''/tmp/in_case(O100)(I1)_PDF_0.5/case(O100)(I1).PDF''],
                  Upload ''/tmp/in_case(O100)(I1)_PDF_0.5/case(O100)(I1).png'' ''pdf-to-png''
                    ''in/case(O100)(I1).png'',
                  RmDir ''/tmp/in_case(O100)(I1)_PDF_0.5'']\<rparr>,
        Inr ())
   \<and> filter is_tracking
        (trace (fst (createImage (example_env ''in/case(O100)(I1).PDF'') {}
           (example_object ''in/case(O100)(I1).PDF'')))) = []"
proof -
  let ?E = "example_env ''in/case(O100)(I1).PDF''"
  let ?O = "example_object ''in/case(O100)(I1).PDF''"
  have m: "filePath_match ''in/case(O100)(I1).PDF'' = Some (''O100'', ''I1'')"
    by code_simp
  have r: "createImage ?E {} ?O
     = (\<lparr>dirs = {},
         trace = [MkDir ''/tmp/in_case(O100)(I1)_PDF_0.5'',
                  Download ''pdf-to-png'' ''in/case(O100)(I1).PDF''
                    ''/tmp/in_case(O100)(I1)_PDF_0.5/case(O100)(I1).PDF'',
                  Ghostscript [Batch, NoPause, Device ''png16m'',
                    Output ''/tmp/in_case(O100)(I1)_PDF_0.5/case(O100)(I1).png'',
                    Input ''/tmp/in_case(O100)(I1)_PDF_0.5/case(O100)(I1).PDF''],
                  Upload ''/tmp/in_case(O100)(I1)_PDF_0.5/case(O100)(I1).png'' ''pdf-to-png''
                    ''in/case(O100)(I1).png'',
                  RmDir ''/tmp/in_case(O100)(I1)_PDF_0.5'']\<rparr>,
        Inr ())"
    by code_simp
  from m r C10_direct_variant_effects[of ?E "{}" ?O, THEN conjunct1] show ?thesis
    by (intro conjI)
qed

end
